theory Spec2Isabelle
  imports Complex_Main
begin

section \<open>The exchange ledger of the CrescitaDigitale bot\<close>

text \<open>
  A shallow embedding of \<^verbatim>\<open>bot.py\<close>: the \<^verbatim>\<open>DatabaseManager\<close> methods, the helper
  \<^verbatim>\<open>calculate_earnings\<close> and the handlers that create requests, record completions and take
  purchase forms. A table is the list of its rows in insertion order (the users table, whose
  primary key is the Telegram id, is a map from that id to the row). Integers are Python's
  unbounded integers; an int bound to a statement must fit SQLite's 64-bit INTEGER, or the
  \<^verbatim>\<open>sqlite3\<close> module raises \<^verbatim>\<open>OverflowError\<close> before the statement runs. The two columns the
  program computes in SQL, \<^verbatim>\<open>coin_balance\<close> and \<^verbatim>\<open>completed_count\<close>, hold an INTEGER or, after
  an overflow of the 64-bit sum, a REAL. The timestamp columns, which SQLite fills from its own
  clock and which no operation reads, are left out, as is the \<^verbatim>\<open>rankings\<close> table, which nothing
  writes. The texts of the replies are not modelled: every reply is a constructor of a datatype.
\<close>

subsection \<open>Exceptions\<close>

datatype error = KeyError | TypeError | OverflowError | IntegrityError

subsection \<open>Python floats\<close>

text \<open>
  The source computes earnings and prices with \<^verbatim>\<open>int * float\<close>. A float is a double: a
  pair of a mantissa and a binary exponent, standing for \<open>mant * 2 ^ expo\<close>, whose mantissa
  is kept to 53 bits (or is \<open>2 ^ 53\<close> itself, when rounding carries) by rounding to nearest,
  ties to even.
\<close>

datatype pyfloat = PyFloat (mant: int) (expo: int)

text \<open>\<^verbatim>\<open>int.bit_length\<close> of a non-negative int: the number of its binary digits.\<close>

function bit_length :: "int \<Rightarrow> nat" where
  "bit_length a = (if a \<le> 0 then 0 else bit_length (a div 2) + 1)"
  by pat_completeness auto
termination
  by (relation "measure nat") auto

declare bit_length.simps [simp del]

definition round53 :: "int \<Rightarrow> int \<Rightarrow> pyfloat" where
  "round53 m e =
     (let a = \<bar>m\<bar> in
      if a < 2 ^ 53 then PyFloat m e
      else
        let k = bit_length a - 53;
            q = a div 2 ^ k;
            r = a mod 2 ^ k;
            h = 2 ^ (k - 1);
            q' = (if r < h then q else if h < r then q + 1 else if even q then q else q + 1)
        in PyFloat (sgn m * q') (e + int k))"

text \<open>
  \<^verbatim>\<open>float(n)\<close> for an int, as the int is converted when it meets a float operand: correctly
  rounded, and \<^verbatim>\<open>OverflowError\<close> when the rounded value does not fit a double.
\<close>

definition float_of_int :: "int \<Rightarrow> error + pyfloat" where
  "float_of_int n =
     (let f = round53 n 0 in
      if (2::int) ^ 1024 \<le> \<bar>mant f\<bar> * 2 ^ nat (expo f) then Inl OverflowError else Inr f)"

text \<open>
  The product of two floats: the exact product, rounded once. Every product of the source
  multiplies a converted int by a literal between 0 and 1, so the result neither overflows
  nor underflows and the exponent range needs no check here.
\<close>

definition float_mul :: "pyfloat \<Rightarrow> pyfloat \<Rightarrow> pyfloat" where
  "float_mul x y = round53 (mant x * mant y) (expo x + expo y)"

text \<open>\<^verbatim>\<open>n * c\<close> for an int \<open>n\<close> and a float \<open>c\<close>.\<close>

definition int_times_float :: "int \<Rightarrow> pyfloat \<Rightarrow> error + pyfloat" where
  "int_times_float n c =
     (case float_of_int n of Inl err \<Rightarrow> Inl err | Inr f \<Rightarrow> Inr (float_mul f c))"

text \<open>\<^verbatim>\<open>int(x)\<close> for a finite float: truncation towards zero.\<close>

definition int_of_float :: "pyfloat \<Rightarrow> int" where
  "int_of_float x =
     (if 0 \<le> expo x then mant x * 2 ^ nat (expo x)
      else sgn (mant x) * (\<bar>mant x\<bar> div 2 ^ nat (- expo x)))"

text \<open>The rational number a float stands for.\<close>

definition float_val :: "pyfloat \<Rightarrow> rat" where
  "float_val x =
     (if 0 \<le> expo x then of_int (mant x * 2 ^ nat (expo x))
      else of_int (mant x) / of_int (2 ^ nat (- expo x)))"

text \<open>The float literals of the source.\<close>

definition lit_0_25 :: pyfloat where "lit_0_25 = PyFloat 1 (- 2)"
definition lit_0_125 :: pyfloat where "lit_0_125 = PyFloat 1 (- 3)"
definition lit_0_03 :: pyfloat where "lit_0_03 = PyFloat 8646911284551352 (- 58)"
definition lit_5_0 :: pyfloat where "lit_5_0 = PyFloat 5 0"
definition lit_10_0 :: pyfloat where "lit_10_0 = PyFloat 10 0"
definition lit_18_0 :: pyfloat where "lit_18_0 = PyFloat 18 0"
definition lit_30_0 :: pyfloat where "lit_30_0 = PyFloat 30 0"

text \<open>
  The sum of two floats: the exact sum, rounded once. The sums of the program add doubles of
  at most 64-bit ints, far inside the exponent range.
\<close>

definition float_add :: "pyfloat \<Rightarrow> pyfloat \<Rightarrow> pyfloat" where
  "float_add x y =
     (let e = min (expo x) (expo y)
      in round53 (mant x * 2 ^ nat (expo x - e) + mant y * 2 ^ nat (expo y - e)) e)"

definition float_neg :: "pyfloat \<Rightarrow> pyfloat" where
  "float_neg x = PyFloat (- mant x) (expo x)"

subsection \<open>SQLite numbers\<close>

text \<open>The range of an INTEGER, and so of an int that can be bound to a statement.\<close>

definition sqlite_int :: "int \<Rightarrow> bool" where
  "sqlite_int n \<longleftrightarrow> - (2 ^ 63) \<le> n \<and> n < 2 ^ 63"

text \<open>The value of a numeric column: an INTEGER or a REAL.\<close>

datatype sqlnum = SqlInt int | SqlReal pyfloat

text \<open>
  A REAL stored into a column of INTEGER affinity becomes an INTEGER when it is a whole number
  strictly between the smallest and the largest 64-bit int.
\<close>

definition integer_affinity :: "pyfloat \<Rightarrow> sqlnum" where
  "integer_affinity x =
     (let v = int_of_float x
      in if (if 0 \<le> expo x then True else mant x mod 2 ^ nat (- expo x) = 0) \<and>
            - (2 ^ 63) < v \<and> v < 2 ^ 63 - 1
         then SqlInt v else SqlReal x)"

text \<open>
  \<^verbatim>\<open>column + ?\<close> in an \<^verbatim>\<open>UPDATE\<close>, for a bound int: the 64-bit sum of two INTEGERs, and
  the sum of the two as doubles when that overflows or when the column holds a REAL.
\<close>

definition sql_add :: "sqlnum \<Rightarrow> int \<Rightarrow> sqlnum" where
  "sql_add n b =
     (case n of
        SqlInt a \<Rightarrow>
          if sqlite_int (a + b) then SqlInt (a + b)
          else integer_affinity (float_add (round53 a 0) (round53 b 0))
      | SqlReal x \<Rightarrow> integer_affinity (float_add x (round53 b 0)))"

text \<open>
  \<^verbatim>\<open><\<close> between a column value and an int, in SQL as in Python: the comparison of the two
  numbers, exact also for a REAL.
\<close>

definition num_less :: "sqlnum \<Rightarrow> int \<Rightarrow> bool" where
  "num_less n b =
     (case n of
        SqlInt a \<Rightarrow> a < b
      | SqlReal x \<Rightarrow>
          if 0 \<le> expo x then mant x * 2 ^ nat (expo x) < b
          else mant x < b * 2 ^ nat (- expo x))"

subsection \<open>The tables\<close>

record user =
  instagram_username :: "string option"
  coin_balance :: sqlnum
  secondary_profile_1 :: "string option"
  secondary_profile_2 :: "string option"
  secondary_profile_1_verified :: bool
  secondary_profile_2_verified :: bool

record interaction =
  iid :: int
  requester_id :: int
  post_link :: string
  action_type :: string
  quantity :: int
  cost_per_action :: int
  total_cost :: int
  completed_count :: sqlnum
  status :: string
  screenshot_id :: "string option"

record user_interaction =
  ui_id :: int
  user_id :: int
  interaction_id :: int
  ui_screenshot_id :: "string option"
  earnings :: int
  profile_type :: string

record ticket =
  t_id :: int
  t_user_id :: int
  message :: string
  t_status :: string

record purchase_form =
  pf_id :: int
  pf_user_id :: int
  name :: string
  phone :: string
  coins_requested :: int
  amount_euro :: pyfloat
  pf_status :: string

record screenshot =
  s_id :: string
  s_user_id :: int
  file_path :: string
  s_interaction_id :: int

record db =
  users :: "int \<rightharpoonup> user"
  interactions :: "interaction list"
  user_interactions :: "user_interaction list"
  tickets :: "ticket list"
  purchase_forms :: "purchase_form list"
  screenshots :: "screenshot list"

text \<open>\<^verbatim>\<open>init_database\<close> on a fresh file: every table is created empty.\<close>

definition init_database :: db where
  "init_database =
     \<lparr>users = Map.empty, interactions = [], user_interactions = [], tickets = [],
      purchase_forms = [], screenshots = []\<rparr>"

text \<open>
  The id of an inserted row. The keys are \<^verbatim>\<open>INTEGER PRIMARY KEY AUTOINCREMENT\<close>, no
  statement of the program deletes a row or sets an id, so the rows of a table are numbered
  1, 2, 3, ... in insertion order.
\<close>

definition lastrowid :: "'a list \<Rightarrow> int" where
  "lastrowid rows = int (length rows) + 1"

subsection \<open>DatabaseManager\<close>

text \<open>
  Every method opens its own connection and commits before it returns. A method that raises
  has written nothing: the result is \<open>Inl\<close> the exception, or \<open>Inr\<close> the returned value and the
  store after the commit.
\<close>

definition get_user :: "db \<Rightarrow> int \<Rightarrow> error + user option" where
  "get_user s telegram_id =
     (if sqlite_int telegram_id then Inr (users s telegram_id) else Inl OverflowError)"

text \<open>The column defaults of the users table: a balance of 10 and no profile.\<close>

definition new_user :: user where
  "new_user =
     \<lparr>instagram_username = None, coin_balance = SqlInt 10, secondary_profile_1 = None,
      secondary_profile_2 = None, secondary_profile_1_verified = False,
      secondary_profile_2_verified = False\<rparr>"

definition create_user :: "db \<Rightarrow> int \<Rightarrow> error + bool \<times> db" where
  "create_user s telegram_id =
     (if sqlite_int telegram_id
      then (case users s telegram_id of
              Some u \<Rightarrow> Inr (False, s)
            | None \<Rightarrow> Inr (True, s\<lparr>users := (users s)(telegram_id \<mapsto> new_user)\<rparr>))
      else Inl OverflowError)"

definition update_user_balance :: "db \<Rightarrow> int \<Rightarrow> int \<Rightarrow> error + bool \<times> db" where
  "update_user_balance s telegram_id amount =
     (if sqlite_int amount \<and> sqlite_int telegram_id
      then (case users s telegram_id of
              None \<Rightarrow> Inr (False, s)
            | Some u \<Rightarrow>
                Inr (True,
                     s\<lparr>users := (users s)(telegram_id \<mapsto>
                          u\<lparr>coin_balance := sql_add (coin_balance u) amount\<rparr>)\<rparr>))
      else Inl OverflowError)"

text \<open>
  With a profile type that is none of the three, no statement runs and the cursor's row
  count stays at -1, so the method returns \<^verbatim>\<open>False\<close>.
\<close>

definition set_user_profile :: "db \<Rightarrow> int \<Rightarrow> string \<Rightarrow> string \<Rightarrow> error + bool \<times> db" where
  "set_user_profile s telegram_id username ptype =
     (if ptype = ''primary'' \<or> ptype = ''secondary_1'' \<or> ptype = ''secondary_2''
      then
        if sqlite_int telegram_id
        then (case users s telegram_id of
                None \<Rightarrow> Inr (False, s)
              | Some u \<Rightarrow>
                  Inr (True,
                       s\<lparr>users := (users s)(telegram_id \<mapsto>
                            (if ptype = ''primary'' then u\<lparr>instagram_username := Some username\<rparr>
                             else if ptype = ''secondary_1''
                             then u\<lparr>secondary_profile_1 := Some username\<rparr>
                             else u\<lparr>secondary_profile_2 := Some username\<rparr>))\<rparr>))
        else Inl OverflowError
      else Inr (False, s))"

text \<open>
  The \<^verbatim>\<open>WHERE\<close> clause of \<^verbatim>\<open>get_available_interactions\<close>, together with its inner join on
  the requester's users row.
\<close>

definition available :: "db \<Rightarrow> int \<Rightarrow> interaction \<Rightarrow> bool" where
  "available s uid i \<longleftrightarrow>
     users s (requester_id i) \<noteq> None \<and> requester_id i \<noteq> uid \<and> status i = ''active'' \<and>
     num_less (completed_count i) (quantity i)"

text \<open>
  The caller's id and the limit are bound to the query. \<^verbatim>\<open>ORDER BY RANDOM()\<close> draws one
  number for each row and sorts by it: \<open>rnd\<close> gives the number drawn for the row with a given
  id. \<^verbatim>\<open>LIMIT ?\<close> with a negative limit puts no upper bound on the number of rows. Each
  returned dictionary is the interactions row and the requester's \<^verbatim>\<open>instagram_username\<close>.
\<close>

definition get_available_interactions ::
  "db \<Rightarrow> int \<Rightarrow> int \<Rightarrow> (int \<Rightarrow> int) \<Rightarrow> error + (interaction \<times> string option) list" where
  "get_available_interactions s uid limit rnd =
     (if sqlite_int uid \<and> sqlite_int limit
      then
        (let rows = sort_key (\<lambda>i. rnd (iid i)) (filter (available s uid) (interactions s))
         in Inr (map (\<lambda>i. (i, case users s (requester_id i) of
                               None \<Rightarrow> None | Some u \<Rightarrow> instagram_username u))
                   (if limit < 0 then rows else take (nat limit) rows)))
      else Inl OverflowError)"

definition create_interaction_request ::
  "db \<Rightarrow> int \<Rightarrow> string \<Rightarrow> string \<Rightarrow> int \<Rightarrow> int \<Rightarrow> error + int \<times> db" where
  "create_interaction_request s uid link action qty cost =
     (let total = qty * cost in
      if sqlite_int uid \<and> sqlite_int qty \<and> sqlite_int cost \<and> sqlite_int total
      then
        (let new_id = lastrowid (interactions s);
             row = \<lparr>iid = new_id, requester_id = uid, post_link = link, action_type = action,
                    quantity = qty, cost_per_action = cost, total_cost = total,
                    completed_count = SqlInt 0, status = ''active'', screenshot_id = None\<rparr>
         in Inr (new_id, s\<lparr>interactions := interactions s @ [row]\<rparr>))
      else Inl OverflowError)"

text \<open>The \<^verbatim>\<open>SELECT\<close> that opens \<^verbatim>\<open>complete_interaction\<close>.\<close>

definition completion_of :: "db \<Rightarrow> int \<Rightarrow> int \<Rightarrow> user_interaction option" where
  "completion_of s uid rid =
     find (\<lambda>c. user_id c = uid \<and> interaction_id c = rid) (user_interactions s)"

definition bump_completed :: "int \<Rightarrow> interaction \<Rightarrow> interaction" where
  "bump_completed rid i =
     (if iid i = rid then i\<lparr>completed_count := sql_add (completed_count i) 1\<rparr> else i)"

definition credit :: "(int \<rightharpoonup> user) \<Rightarrow> int \<Rightarrow> int \<Rightarrow> (int \<rightharpoonup> user)" where
  "credit us uid amount =
     (case us uid of
        None \<Rightarrow> us
      | Some u \<Rightarrow> us(uid \<mapsto> u\<lparr>coin_balance := sql_add (coin_balance u) amount\<rparr>))"

text \<open>
  The ids are bound to the opening \<^verbatim>\<open>SELECT\<close>; the earnings are bound only to the
  \<^verbatim>\<open>INSERT\<close>, which a pair that is already completed does not reach.
\<close>

definition complete_interaction ::
  "db \<Rightarrow> int \<Rightarrow> int \<Rightarrow> int \<Rightarrow> string \<Rightarrow> string option \<Rightarrow> error + bool \<times> db" where
  "complete_interaction s uid rid earned ptype shot =
     (if sqlite_int uid \<and> sqlite_int rid
      then
        (case completion_of s uid rid of
           Some c \<Rightarrow> Inr (False, s)
         | None \<Rightarrow>
             if sqlite_int earned
             then
               Inr (True,
                    s\<lparr>user_interactions := user_interactions s @
                         [\<lparr>ui_id = lastrowid (user_interactions s), user_id = uid,
                           interaction_id = rid, ui_screenshot_id = shot, earnings = earned,
                           profile_type = ptype\<rparr>],
                      interactions := map (bump_completed rid) (interactions s),
                      users := credit (users s) uid earned\<rparr>)
             else Inl OverflowError)
      else Inl OverflowError)"

definition create_ticket :: "db \<Rightarrow> int \<Rightarrow> string \<Rightarrow> error + int \<times> db" where
  "create_ticket s uid msg =
     (if sqlite_int uid
      then
        (let new_id = lastrowid (tickets s)
         in Inr (new_id,
                 s\<lparr>tickets := tickets s @
                      [\<lparr>t_id = new_id, t_user_id = uid, message = msg, t_status = ''open''\<rparr>]\<rparr>))
      else Inl OverflowError)"

definition create_purchase_form ::
  "db \<Rightarrow> int \<Rightarrow> string \<Rightarrow> string \<Rightarrow> int \<Rightarrow> pyfloat \<Rightarrow> error + int \<times> db" where
  "create_purchase_form s uid nm ph coins euro =
     (if sqlite_int uid \<and> sqlite_int coins
      then
        (let new_id = lastrowid (purchase_forms s)
         in Inr (new_id,
                 s\<lparr>purchase_forms := purchase_forms s @
                      [\<lparr>pf_id = new_id, pf_user_id = uid, name = nm, phone = ph,
                        coins_requested = coins, amount_euro = euro,
                        pf_status = ''pending''\<rparr>]\<rparr>))
      else Inl OverflowError)"

subsection \<open>Earnings\<close>

definition calculate_earnings :: "int \<Rightarrow> string \<Rightarrow> error + int" where
  "calculate_earnings cost ptype =
     (if ptype = ''primary''
      then (case int_times_float cost lit_0_25 of
              Inl err \<Rightarrow> Inl err | Inr x \<Rightarrow> Inr (int_of_float x))
      else (case int_times_float cost lit_0_125 of
              Inl err \<Rightarrow> Inl err | Inr x \<Rightarrow> Inr (int_of_float x)))"

subsection \<open>Conversation state and replies\<close>

text \<open>
  \<^verbatim>\<open>context.user_data\<close>, the dictionary a participant's flows keep between messages: each
  key the handlers use, absent (\<open>None\<close>) or present with its value. \<^verbatim>\<open>clear()\<close> empties it.
\<close>

record user_data =
  ud_interaction_type :: "string option"
  ud_post_link :: "string option"
  ud_purchase_name :: "string option"
  ud_purchase_phone :: "string option"
  ud_pending_interaction_id :: "int option"

definition clear :: user_data where
  "clear =
     \<lparr>ud_interaction_type = None, ud_post_link = None, ud_purchase_name = None,
      ud_purchase_phone = None, ud_pending_interaction_id = None\<rparr>"

datatype conv_state =
  WAITING_POST_LINK | WAITING_QUANTITY | WAITING_SCREENSHOT | WAITING_PURCHASE_NAME
| WAITING_PURCHASE_PHONE | WAITING_PURCHASE_COINS | END

text \<open>The messages and keyboards the handlers answer with.\<close>

datatype reply =
  Invalid_number
| Not_positive
| Insufficient_balance sqlnum int
| Request_created int int sqlnum
| Interaction_not_found
| Interaction_completed int
| Already_completed
| Offer_screenshot int int
| Offer_confirm int int
| Send_photo
| Missing_interaction_id
| Screenshot_completed string int
| Purchase_form_sent int pyfloat

definition ACTION_COSTS :: "(string \<times> int) list" where
  "ACTION_COSTS =
     [(''like'', 1), (''follow'', 5), (''commento'', 6), (''condivisione_story'', 10),
      (''visualizzazione_reel'', 5), (''salvataggio'', 5), (''invio_chat'', 1)]"

subsection \<open>Creating a request\<close>

text \<open>
  \<^verbatim>\<open>balance - total\<close> and \<^verbatim>\<open>total - balance\<close> as the replies of \<^verbatim>\<open>handle_quantity\<close>
  compute them in Python: exact for an int balance; for a float balance the int is converted
  to a float first, which may raise \<^verbatim>\<open>OverflowError\<close>.
\<close>

definition py_minus_int :: "sqlnum \<Rightarrow> int \<Rightarrow> error + sqlnum" where
  "py_minus_int n b =
     (case n of
        SqlInt a \<Rightarrow> Inr (SqlInt (a - b))
      | SqlReal x \<Rightarrow>
          (case float_of_int b of
             Inl err \<Rightarrow> Inl err
           | Inr f \<Rightarrow> Inr (SqlReal (float_add x (float_neg f)))))"

definition py_int_minus :: "int \<Rightarrow> sqlnum \<Rightarrow> error + sqlnum" where
  "py_int_minus b n =
     (case n of
        SqlInt a \<Rightarrow> Inr (SqlInt (b - a))
      | SqlReal x \<Rightarrow>
          (case float_of_int b of
             Inl err \<Rightarrow> Inl err
           | Inr f \<Rightarrow> Inr (SqlReal (float_add f (float_neg x)))))"

text \<open>
  \<^verbatim>\<open>handle_quantity\<close>. Its input \<open>parsed\<close> is what \<^verbatim>\<open>int(update.message.text.strip())\<close>
  gives: \<open>None\<close> when it raises \<^verbatim>\<open>ValueError\<close>. An exception leaves the handler with the
  store as committed so far; the result is the outcome, the store and the dictionary.
\<close>

definition handle_quantity ::
  "db \<Rightarrow> user_data \<Rightarrow> int \<Rightarrow> int option \<Rightarrow> (error + conv_state \<times> reply) \<times> db \<times> user_data" where
  "handle_quantity s ud uid parsed =
     (case parsed of
        None \<Rightarrow> (Inr (WAITING_QUANTITY, Invalid_number), s, ud)
      | Some qty \<Rightarrow>
          if qty \<le> 0 then (Inr (WAITING_QUANTITY, Not_positive), s, ud)
          else
            (case get_user s uid of
               Inl err \<Rightarrow> (Inl err, s, ud)
             | Inr user \<Rightarrow>
                 (case ud_interaction_type ud of
                    None \<Rightarrow> (Inl KeyError, s, ud)
                  | Some action \<Rightarrow>
                      (case map_of ACTION_COSTS action of
                         None \<Rightarrow> (Inl KeyError, s, ud)
                       | Some cost \<Rightarrow>
                           (let total = qty * cost in
                            case user of
                              None \<Rightarrow> (Inl TypeError, s, ud)
                            | Some u \<Rightarrow>
                                if num_less (coin_balance u) total
                                then
                                  (case py_int_minus total (coin_balance u) of
                                     Inl err \<Rightarrow> (Inl err, s, ud)
                                   | Inr missing \<Rightarrow>
                                       (Inr (END, Insufficient_balance (coin_balance u) total),
                                        s, clear))
                                else
                                  (case update_user_balance s uid (- total) of
                                     Inl err \<Rightarrow> (Inl err, s, ud)
                                   | Inr debited \<Rightarrow>
                                       (case ud_post_link ud of
                                          None \<Rightarrow> (Inl KeyError, snd debited, ud)
                                        | Some link \<Rightarrow>
                                            (case create_interaction_request (snd debited) uid link
                                                    action qty cost of
                                               Inl err \<Rightarrow> (Inl err, snd debited, ud)
                                             | Inr r \<Rightarrow>
                                                 (case py_minus_int (coin_balance u) total of
                                                    Inl err \<Rightarrow> (Inl err, snd r, ud)
                                                  | Inr left \<Rightarrow>
                                                      (Inr (END, Request_created (fst r) total left),
                                                       snd r, clear))))))))))"

subsection \<open>Recording a completion\<close>

text \<open>The row of \<^verbatim>\<open>SELECT ... FROM interactions WHERE id = ?\<close>, for an id that can be bound.\<close>

definition interaction_row :: "db \<Rightarrow> int \<Rightarrow> interaction option" where
  "interaction_row s rid = find (\<lambda>i. iid i = rid) (interactions s)"

text \<open>
  \<^verbatim>\<open>handle_do_action\<close> shows a request and offers one of two buttons: the screenshot upload
  when the price is 5 or more, the plain confirmation below. Its query joins the requester's
  users row.
\<close>

definition handle_do_action :: "db \<Rightarrow> int \<Rightarrow> error + reply" where
  "handle_do_action s rid =
     (if sqlite_int rid
      then
        (case find (\<lambda>i. iid i = rid \<and> users s (requester_id i) \<noteq> None) (interactions s) of
           None \<Rightarrow> Inr Interaction_not_found
         | Some i \<Rightarrow>
             (case calculate_earnings (cost_per_action i) ''primary'' of
                Inl err \<Rightarrow> Inl err
              | Inr earned \<Rightarrow>
                  if 5 \<le> cost_per_action i then Inr (Offer_screenshot rid earned)
                  else Inr (Offer_confirm rid earned)))
      else Inl OverflowError)"

text \<open>
  \<^verbatim>\<open>handle_confirm_action\<close>: the completion without a screenshot. The request id, taken from
  the callback data, is bound to the lookup.
\<close>

definition handle_confirm_action :: "db \<Rightarrow> int \<Rightarrow> int \<Rightarrow> (error + reply) \<times> db" where
  "handle_confirm_action s uid rid =
     (if sqlite_int rid
      then
        (case interaction_row s rid of
           None \<Rightarrow> (Inr Interaction_not_found, s)
         | Some i \<Rightarrow>
             (case calculate_earnings (cost_per_action i) ''primary'' of
                Inl err \<Rightarrow> (Inl err, s)
              | Inr earned \<Rightarrow>
                  (case complete_interaction s uid rid earned ''primary'' None of
                     Inl err \<Rightarrow> (Inl err, s)
                   | Inr r \<Rightarrow>
                       if fst r then (Inr (Interaction_completed earned), snd r)
                       else (Inr Already_completed, snd r))))
      else (Inl OverflowError, s))"

text \<open>The decimal digits of a non-negative int, as an f-string writes them.\<close>

function str_digits :: "int \<Rightarrow> string" where
  "str_digits n =
     (if n < 10 then [''0123456789'' ! nat n]
      else str_digits (n div 10) @ [''0123456789'' ! nat (n mod 10)])"
  by pat_completeness auto
termination
  by (relation "measure nat") auto

declare str_digits.simps [simp del]

definition str_int :: "int \<Rightarrow> string" where
  "str_int n = (if n < 0 then CHR ''-'' # str_digits (- n) else str_digits n)"

text \<open>
  \<^verbatim>\<open>handle_screenshot_upload\<close>: the completion with a screenshot. \<open>has_photo\<close> tells whether
  the message carries a photo and \<open>now\<close> is the clock's reading, formatted
  \<^verbatim>\<open>%Y%m%d_%H%M%S\<close>. The screenshot row is inserted, under its text primary key and with the
  two ids bound, before the request is looked up.
\<close>

definition handle_screenshot_upload ::
  "db \<Rightarrow> user_data \<Rightarrow> int \<Rightarrow> bool \<Rightarrow> string \<Rightarrow> (error + conv_state \<times> reply) \<times> db \<times> user_data" where
  "handle_screenshot_upload s ud uid has_photo now =
     (if \<not> has_photo then (Inr (WAITING_SCREENSHOT, Send_photo), s, ud)
      else
        (case ud_pending_interaction_id ud of
           None \<Rightarrow> (Inr (END, Missing_interaction_id), s, clear)
         | Some rid \<Rightarrow>
             if rid = 0 then (Inr (END, Missing_interaction_id), s, clear)
             else
               (let shot = str_int uid @ ''_'' @ str_int rid @ ''_'' @ now;
                    filename = ''screenshots/'' @ shot @ ''.jpg''
                in if sqlite_int uid \<and> sqlite_int rid
                   then
                     if find (\<lambda>x. s_id x = shot) (screenshots s) \<noteq> None
                     then (Inl IntegrityError, s, ud)
                     else
                       (let s1 = s\<lparr>screenshots := screenshots s @
                                    [\<lparr>s_id = shot, s_user_id = uid, file_path = filename,
                                      s_interaction_id = rid\<rparr>]\<rparr>
                        in case interaction_row s1 rid of
                             None \<Rightarrow> (Inr (END, Interaction_not_found), s1, clear)
                           | Some i \<Rightarrow>
                               (case calculate_earnings (cost_per_action i) ''primary'' of
                                  Inl err \<Rightarrow> (Inl err, s1, ud)
                                | Inr earned \<Rightarrow>
                                    (case complete_interaction s1 uid rid earned ''primary''
                                            (Some shot) of
                                       Inl err \<Rightarrow> (Inl err, s1, ud)
                                     | Inr r \<Rightarrow>
                                         if fst r
                                         then (Inr (END, Screenshot_completed shot earned), snd r,
                                               clear)
                                         else (Inr (END, Already_completed), snd r, clear))))
                   else (Inl OverflowError, s, ud))))"

subsection \<open>The purchase form\<close>

text \<open>The price of \<^verbatim>\<open>purchase_coins_handler\<close> for a positive amount of coins.\<close>

definition coin_price :: "int \<Rightarrow> error + pyfloat" where
  "coin_price coins =
     (if coins \<le> 100 then Inr lit_5_0
      else if coins \<le> 250 then Inr lit_10_0
      else if coins \<le> 500 then Inr lit_18_0
      else if coins \<le> 1000 then Inr lit_30_0
      else int_times_float coins lit_0_03)"

text \<open>
  \<^verbatim>\<open>purchase_coins_handler\<close>; \<open>parsed\<close> is the outcome of \<^verbatim>\<open>int(update.message.text)\<close>,
  \<open>None\<close> for \<^verbatim>\<open>ValueError\<close>.
\<close>

definition purchase_coins_handler ::
  "db \<Rightarrow> user_data \<Rightarrow> int \<Rightarrow> int option \<Rightarrow> (error + conv_state \<times> reply) \<times> db \<times> user_data" where
  "purchase_coins_handler s ud uid parsed =
     (case parsed of
        None \<Rightarrow> (Inr (WAITING_PURCHASE_COINS, Invalid_number), s, ud)
      | Some coins \<Rightarrow>
          if coins \<le> 0 then (Inr (WAITING_PURCHASE_COINS, Not_positive), s, ud)
          else
            (case coin_price coins of
               Inl err \<Rightarrow> (Inl err, s, ud)
             | Inr price \<Rightarrow>
                 (case ud_purchase_name ud of
                    None \<Rightarrow> (Inl KeyError, s, ud)
                  | Some nm \<Rightarrow>
                      (case ud_purchase_phone ud of
                         None \<Rightarrow> (Inl KeyError, s, ud)
                       | Some ph \<Rightarrow>
                           (case create_purchase_form s uid nm ph coins price of
                              Inl err \<Rightarrow> (Inl err, s, ud)
                            | Inr r \<Rightarrow>
                                (Inr (END, Purchase_form_sent (fst r) price), snd r, clear))))))"

subsection \<open>Runs of the store\<close>

text \<open>
  Everything that writes to the store: the methods of \<^verbatim>\<open>DatabaseManager\<close> called with any
  arguments, and the handlers above. A reachable store is the result of a finite sequence of
  such events on the empty database.
\<close>

datatype event =
  Create_user int
| Update_user_balance int int
| Set_user_profile int string string
| Create_interaction_request int string string int int
| Complete_interaction int int int string "string option"
| Create_ticket int string
| Create_purchase_form int string string int pyfloat
| Handle_quantity user_data int "int option"
| Handle_confirm_action int int
| Handle_screenshot_upload user_data int bool string
| Purchase_coins_handler user_data int "int option"

text \<open>The store after a method call: as it was when the method raised.\<close>

definition committed :: "db \<Rightarrow> error + 'a \<times> db \<Rightarrow> db" where
  "committed s r = (case r of Inl err \<Rightarrow> s | Inr x \<Rightarrow> snd x)"

fun apply_event :: "db \<Rightarrow> event \<Rightarrow> db" where
  "apply_event s (Create_user uid) = committed s (create_user s uid)"
| "apply_event s (Update_user_balance uid amount) = committed s (update_user_balance s uid amount)"
| "apply_event s (Set_user_profile uid username ptype) =
     committed s (set_user_profile s uid username ptype)"
| "apply_event s (Create_interaction_request uid link action qty cost) =
     committed s (create_interaction_request s uid link action qty cost)"
| "apply_event s (Complete_interaction uid rid earned ptype shot) =
     committed s (complete_interaction s uid rid earned ptype shot)"
| "apply_event s (Create_ticket uid msg) = committed s (create_ticket s uid msg)"
| "apply_event s (Create_purchase_form uid nm ph coins euro) =
     committed s (create_purchase_form s uid nm ph coins euro)"
| "apply_event s (Handle_quantity ud uid parsed) = fst (snd (handle_quantity s ud uid parsed))"
| "apply_event s (Handle_confirm_action uid rid) = snd (handle_confirm_action s uid rid)"
| "apply_event s (Handle_screenshot_upload ud uid has_photo now) =
     fst (snd (handle_screenshot_upload s ud uid has_photo now))"
| "apply_event s (Purchase_coins_handler ud uid parsed) =
     fst (snd (purchase_coins_handler s ud uid parsed))"

definition run :: "event list \<Rightarrow> db" where
  "run evs = foldl apply_event init_database evs"

subsection \<open>Predicates on the store\<close>

text \<open>The completion rows of one account on one request.\<close>

definition completions :: "db \<Rightarrow> int \<Rightarrow> int \<Rightarrow> user_interaction list" where
  "completions s uid rid =
     filter (\<lambda>c. user_id c = uid \<and> interaction_id c = rid) (user_interactions s)"

definition once :: "db \<Rightarrow> bool" where
  "once s \<longleftrightarrow> (\<forall>uid rid. length (completions s uid rid) \<le> 1)"

definition ids_ok :: "db \<Rightarrow> bool" where
  "ids_ok s \<longleftrightarrow>
     list_all (\<lambda>c. sqlite_int (user_id c) \<and> sqlite_int (interaction_id c)) (user_interactions s)"

definition all_active :: "db \<Rightarrow> bool" where
  "all_active s \<longleftrightarrow> list_all (\<lambda>i. status i = ''active'') (interactions s)"

subsection \<open>Sample sessions\<close>

text \<open>
  The dictionary of a participant who has chosen an action and sent a link, of one who has
  given name and phone in the purchase form, and of one who has pressed the screenshot button
  of a request; and the draws of \<^verbatim>\<open>RANDOM()\<close> that order the rows by their id.
\<close>

definition ud_request :: "string \<Rightarrow> user_data" where
  "ud_request action =
     clear\<lparr>ud_interaction_type := Some action,
           ud_post_link := Some ''https://instagram.com/p/ABC123/''\<rparr>"

definition ud_purchase :: user_data where
  "ud_purchase =
     clear\<lparr>ud_purchase_name := Some ''Mario Rossi'', ud_purchase_phone := Some ''3331234567''\<rparr>"

definition ud_pending :: "int \<Rightarrow> user_data" where
  "ud_pending rid = clear\<lparr>ud_pending_interaction_id := Some rid\<rparr>"

definition by_id :: "int \<Rightarrow> int" where
  "by_id rid = rid"

section \<open>Properties\<close>

lemmas api_defs =
  get_user_def create_user_def update_user_balance_def set_user_profile_def
  create_interaction_request_def create_ticket_def create_purchase_form_def committed_def

lemmas num_defs =
  sqlite_int_def sql_add_def num_less_def py_minus_int_def py_int_minus_def

lemmas store_defs =
  init_database_def lastrowid_def new_user_def api_defs num_defs
  completion_of_def bump_completed_def credit_def complete_interaction_def
  interaction_row_def

lemmas float_defs =
  round53_def float_of_int_def float_mul_def int_times_float_def int_of_float_def
  lit_0_25_def lit_0_125_def lit_0_03_def lit_5_0_def lit_10_0_def lit_18_0_def lit_30_0_def

lemmas run_defs = run_def store_defs clear_def ACTION_COSTS_def handle_quantity_def
  handle_confirm_action_def ud_request_def Let_def

subsection \<open>Floats\<close>

lemma bit_length_upper: "0 \<le> a \<Longrightarrow> a < 2 ^ bit_length a"
proof (induction a rule: bit_length.induct)
  case (1 a)
  show ?case
  proof (cases "a \<le> 0")
    case True
    with "1.prems" show ?thesis by (simp add: bit_length.simps)
  next
    case False
    then have "a div 2 < 2 ^ bit_length (a div 2)"
      using "1.IH" by simp
    then have "a < 2 * 2 ^ bit_length (a div 2)" by linarith
    with False show ?thesis by (simp add: bit_length.simps [of a])
  qed
qed

lemma bit_length_le: "a < 2 ^ w \<Longrightarrow> bit_length a \<le> w"
proof (induction w arbitrary: a)
  case 0
  then show ?case by (simp add: bit_length.simps)
next
  case (Suc w)
  show ?case
  proof (cases "a \<le> 0")
    case True
    then show ?thesis by (simp add: bit_length.simps)
  next
    case False
    from Suc.prems have "a div 2 < 2 ^ w" by simp
    then have "bit_length (a div 2) \<le> w" by (rule Suc.IH)
    with False show ?thesis by (simp add: bit_length.simps [of a])
  qed
qed

lemma bit_length_ge: "2 ^ w \<le> a \<Longrightarrow> w < bit_length a"
proof (induction w arbitrary: a)
  case 0
  then show ?case by (simp add: bit_length.simps [of a])
next
  case (Suc w)
  then have "2 ^ w \<le> a div 2" by simp
  then have "w < bit_length (a div 2)" by (rule Suc.IH)
  moreover from Suc.prems have "0 < a" by (smt (verit) zero_less_power)
  ultimately show ?case by (simp add: bit_length.simps [of a])
qed

text \<open>The rounded mantissa stays within the size of the int.\<close>

lemma round53_bounds:
  assumes "\<bar>m\<bar> < 2 ^ w" and "53 \<le> w"
  shows "\<bar>mant (round53 m e)\<bar> * 2 ^ nat (expo (round53 m e) - e) \<le> 2 ^ w"
proof (cases "\<bar>m\<bar> < 2 ^ 53")
  case True
  have "(2::int) ^ 53 \<le> 2 ^ w" using assms(2) by (rule power_increasing) simp
  with True show ?thesis by (simp add: round53_def)
next
  case False
  define a where "a = \<bar>m\<bar>"
  define k where "k = bit_length a - 53"
  define q where "q = a div 2 ^ k"
  have a53: "2 ^ 53 \<le> a" using False by (simp add: a_def)
  then have bl: "53 < bit_length a" by (rule bit_length_ge)
  have blw: "bit_length a \<le> w" using assms(1) by (simp add: a_def bit_length_le)
  have "a < 2 ^ bit_length a" by (rule bit_length_upper) (simp add: a_def)
  also have "bit_length a = 53 + k" using bl by (simp add: k_def)
  finally have "a < 2 ^ 53 * 2 ^ k" by (simp add: power_add)
  moreover have "q * 2 ^ k + a mod 2 ^ k = a" unfolding q_def by (rule div_mult_mod_eq)
  moreover have "0 \<le> a mod 2 ^ k" by simp
  ultimately have "q * 2 ^ k < 2 ^ 53 * 2 ^ k" by linarith
  then have "q < 2 ^ 53" by (simp add: mult_less_cancel_right)
  have q0: "0 \<le> q" by (simp add: q_def a_def pos_imp_zdiv_nonneg_iff)
  define q' where "q' = (if a mod 2 ^ k < 2 ^ (k - 1) then q else if 2 ^ (k - 1) < a mod 2 ^ k then q + 1 else if even q then q else q + 1)"
  have q'b: "0 \<le> q' \<and> q' \<le> 2 ^ 53" using \<open>q < 2 ^ 53\<close> q0 by (simp add: q'_def)
  have r: "round53 m e = PyFloat (sgn m * q') (e + int k)"
    using False by (simp add: round53_def Let_def a_def k_def q_def q'_def)
  have "\<bar>sgn m * q'\<bar> \<le> 2 ^ 53" using q'b by (simp add: abs_mult abs_sgn_eq)
  then have "\<bar>sgn m * q'\<bar> * 2 ^ k \<le> 2 ^ 53 * 2 ^ k" by (simp add: mult_right_mono)
  also have "\<dots> = 2 ^ (53 + k)" by (simp add: power_add)
  also have "\<dots> \<le> 2 ^ w" using blw bl by (intro power_increasing) (simp_all add: k_def)
  finally show ?thesis by (simp add: r)
qed

lemma float_of_int_ok:
  assumes "\<bar>n\<bar> < 2 ^ 1023"
  shows "float_of_int n = Inr (round53 n 0)"
proof -
  have "\<bar>mant (round53 n 0)\<bar> * 2 ^ nat (expo (round53 n 0)) \<le> 2 ^ 1023"
    using round53_bounds [OF assms, of 0] by simp
  also have "(2::int) ^ 1023 < 2 ^ 1024" by (rule power_strict_increasing) simp_all
  finally show ?thesis by (simp add: float_of_int_def Let_def)
qed

lemma bit_length_power: "bit_length (2 ^ n) = n + 1"
proof -
  have "bit_length (2 ^ n) \<le> n + 1" by (rule bit_length_le) simp
  moreover have "n < bit_length (2 ^ n)" by (rule bit_length_ge) simp
  ultimately show ?thesis by simp
qed

lemma round53_power: "round53 (2 ^ (53 + j)) e = PyFloat (2 ^ 52) (e + int (j + 1))"
proof -
  have split: "(2::int) ^ (53 + j) = 2 ^ 52 * 2 ^ (j + 1)"
    by (simp add: power_add)
  have big: "\<not> (2::int) ^ (53 + j) < 2 ^ 53"
    unfolding not_less by (rule power_increasing) simp_all
  have q: "(2::int) ^ (53 + j) div 2 ^ (j + 1) = 2 ^ 52"
    unfolding split by simp
  have r: "(2::int) ^ (53 + j) mod 2 ^ (j + 1) = 0"
    unfolding split by simp
  have k: "bit_length (2 ^ (53 + j)) - 53 = j + 1"
    by (simp add: bit_length_power)
  have a: "\<bar>(2::int) ^ (53 + j)\<bar> = 2 ^ (53 + j)" by simp
  have s: "sgn ((2::int) ^ (53 + j)) = 1" by simp
  show ?thesis
    unfolding round53_def Let_def a k q r s using big by simp
qed

lemma float_of_int_2_1024: "float_of_int (2 ^ 1024) = Inl OverflowError"
proof -
  have "round53 (2 ^ 1024) 0 = PyFloat (2 ^ 52) 972"
    using round53_power [of 971 0] by simp
  moreover have "(2::int) ^ 52 * 2 ^ 972 = 2 ^ 1024"
    by (simp add: power_add [symmetric])
  ultimately show ?thesis
    by (simp add: float_of_int_def Let_def)
qed

lemma earn1: "calculate_earnings 1 ''primary'' = Inr 0"
  by (simp add: calculate_earnings_def float_defs)
lemma earn5: "calculate_earnings 5 ''primary'' = Inr 1"
  by (simp add: calculate_earnings_def float_defs)





text \<open>
  The sum of two INTEGERs that leaves the 64-bit range is a REAL, and a REAL that comes back
  to a whole number inside the range is stored as an INTEGER again.
\<close>

lemma sql_add_overflow:
  "sql_add (SqlInt 10) 9223372036854775807 = SqlReal (PyFloat 4503599627370496 11)"
  by (simp add: sql_add_def sqlite_int_def float_add_def integer_affinity_def round53_def
        int_of_float_def bit_length.simps Let_def)

lemma sql_add_back:
  "sql_add (SqlReal (PyFloat 4503599627370496 11)) (- 4611686018427387904) =
     SqlInt 4611686018427387904"
  by (simp add: sql_add_def float_add_def integer_affinity_def round53_def
        int_of_float_def bit_length.simps Let_def)

subsection \<open>At most one completion per account and request\<close>

lemma completion_of_None: "completion_of s uid rid = None \<longleftrightarrow> completions s uid rid = []"
  by (auto simp: completion_of_def completions_def find_None_iff filter_empty_conv)

lemma once_users [simp]: "once (s\<lparr>users := x\<rparr>) = once s"
  by (simp add: once_def completions_def)
lemma once_interactions [simp]: "once (s\<lparr>interactions := x\<rparr>) = once s"
  by (simp add: once_def completions_def)
lemma once_tickets [simp]: "once (s\<lparr>tickets := x\<rparr>) = once s"
  by (simp add: once_def completions_def)
lemma once_purchase_forms [simp]: "once (s\<lparr>purchase_forms := x\<rparr>) = once s"
  by (simp add: once_def completions_def)
lemma once_screenshots [simp]: "once (s\<lparr>screenshots := x\<rparr>) = once s"
  by (simp add: once_def completions_def)

lemma once_append:
  assumes "once s" and "completions s uid rid = []"
  shows "once (s\<lparr>user_interactions := user_interactions s @
            [\<lparr>ui_id = k, user_id = uid, interaction_id = rid, ui_screenshot_id = sh,
              earnings = e, profile_type = p\<rparr>]\<rparr>)"
  unfolding once_def
proof (intro allI)
  fix u r
  let ?s' = "s\<lparr>user_interactions := user_interactions s @
            [\<lparr>ui_id = k, user_id = uid, interaction_id = rid, ui_screenshot_id = sh,
              earnings = e, profile_type = p\<rparr>]\<rparr>"
  show "length (completions ?s' u r) \<le> 1"
  proof (cases "u = uid \<and> r = rid")
    case True
    with assms(2) show ?thesis by (simp add: completions_def)
  next
    case False
    then have "completions ?s' u r = completions s u r"
      by (auto simp: completions_def)
    with assms(1) show ?thesis by (simp add: once_def)
  qed
qed

lemma once_complete_interaction:
  "complete_interaction s uid rid e p sh = Inr r \<Longrightarrow> once s \<Longrightarrow> once (snd r)"
  by (auto simp: complete_interaction_def completion_of_None once_append
        split: if_splits option.splits)

lemma once_complete_interaction_pair:
  "complete_interaction s uid rid e p sh = Inr (a, s') \<Longrightarrow> once s \<Longrightarrow> once s'"
  using once_complete_interaction [of s uid rid e p sh "(a, s')"] by simp

lemma once_handle_quantity: "once s \<Longrightarrow> once (fst (snd (handle_quantity s ud uid parsed)))"
  by (simp add: handle_quantity_def api_defs Let_def split: option.splits sum.splits)

lemma once_handle_confirm_action: "once s \<Longrightarrow> once (snd (handle_confirm_action s uid rid))"
  by (auto simp: handle_confirm_action_def Let_def split: option.splits sum.splits
        intro: once_complete_interaction_pair)

lemma once_handle_screenshot_upload:
  "once s \<Longrightarrow> once (fst (snd (handle_screenshot_upload s ud uid ph now)))"
proof -
  assume o: "once s"
  have "once s'"
    if "complete_interaction (s\<lparr>screenshots := x\<rparr>) uid rid e p sh = Inr (a, s')"
    for x rid e p sh a s'
    using o by (intro once_complete_interaction_pair [OF that]) simp
  then show ?thesis
    using o
    by (simp add: handle_screenshot_upload_def Let_def split: option.splits sum.splits)
qed

lemma once_purchase_coins_handler:
  "once s \<Longrightarrow> once (fst (snd (purchase_coins_handler s ud uid parsed)))"
  by (simp add: purchase_coins_handler_def api_defs Let_def split: option.splits sum.splits)

lemma once_apply_event: "once s \<Longrightarrow> once (apply_event s ev)"
proof (cases ev)
  case (Complete_interaction uid rid e p sh)
  assume "once s"
  then show ?thesis
    unfolding Complete_interaction
    by (auto simp: committed_def split: sum.splits intro: once_complete_interaction_pair)
qed (simp_all add: once_handle_quantity once_handle_confirm_action
       once_handle_screenshot_upload once_purchase_coins_handler api_defs Let_def
       split: option.splits)

lemma once_run: "once (run evs)"
proof (induction evs rule: rev_induct)
  case Nil
  show ?case by (simp add: run_def once_def completions_def init_database_def)
next
  case (snoc ev evs)
  then show ?case by (simp add: run_def once_apply_event)
qed

text \<open>Every completion row of a reachable store carries ids that were bound to a statement.\<close>

lemma ids_ok_users [simp]: "ids_ok (s\<lparr>users := x\<rparr>) = ids_ok s"
  by (simp add: ids_ok_def)
lemma ids_ok_interactions [simp]: "ids_ok (s\<lparr>interactions := x\<rparr>) = ids_ok s"
  by (simp add: ids_ok_def)
lemma ids_ok_tickets [simp]: "ids_ok (s\<lparr>tickets := x\<rparr>) = ids_ok s"
  by (simp add: ids_ok_def)
lemma ids_ok_purchase_forms [simp]: "ids_ok (s\<lparr>purchase_forms := x\<rparr>) = ids_ok s"
  by (simp add: ids_ok_def)
lemma ids_ok_screenshots [simp]: "ids_ok (s\<lparr>screenshots := x\<rparr>) = ids_ok s"
  by (simp add: ids_ok_def)

lemma ids_ok_complete_interaction:
  "complete_interaction s uid rid e p sh = Inr r \<Longrightarrow> ids_ok s \<Longrightarrow> ids_ok (snd r)"
  by (auto simp: complete_interaction_def ids_ok_def split: if_splits option.splits)

lemma ids_ok_complete_interaction_pair:
  "complete_interaction s uid rid e p sh = Inr (a, s') \<Longrightarrow> ids_ok s \<Longrightarrow> ids_ok s'"
  using ids_ok_complete_interaction [of s uid rid e p sh "(a, s')"] by simp

lemma ids_ok_handle_quantity:
  "ids_ok s \<Longrightarrow> ids_ok (fst (snd (handle_quantity s ud uid parsed)))"
  by (simp add: handle_quantity_def api_defs Let_def split: option.splits sum.splits)

lemma ids_ok_handle_confirm_action:
  "ids_ok s \<Longrightarrow> ids_ok (snd (handle_confirm_action s uid rid))"
  by (auto simp: handle_confirm_action_def Let_def split: option.splits sum.splits
        intro: ids_ok_complete_interaction_pair)

lemma ids_ok_handle_screenshot_upload:
  "ids_ok s \<Longrightarrow> ids_ok (fst (snd (handle_screenshot_upload s ud uid ph now)))"
proof -
  assume o: "ids_ok s"
  have "ids_ok s'"
    if "complete_interaction (s\<lparr>screenshots := x\<rparr>) uid rid e p sh = Inr (a, s')"
    for x rid e p sh a s'
    using o by (intro ids_ok_complete_interaction_pair [OF that]) simp
  then show ?thesis
    using o
    by (simp add: handle_screenshot_upload_def Let_def split: option.splits sum.splits)
qed

lemma ids_ok_purchase_coins_handler:
  "ids_ok s \<Longrightarrow> ids_ok (fst (snd (purchase_coins_handler s ud uid parsed)))"
  by (simp add: purchase_coins_handler_def api_defs Let_def split: option.splits sum.splits)

lemma ids_ok_apply_event: "ids_ok s \<Longrightarrow> ids_ok (apply_event s ev)"
proof (cases ev)
  case (Complete_interaction uid rid e p sh)
  assume "ids_ok s"
  then show ?thesis
    unfolding Complete_interaction
    by (auto simp: committed_def split: sum.splits intro: ids_ok_complete_interaction_pair)
qed (simp_all add: ids_ok_handle_quantity ids_ok_handle_confirm_action
       ids_ok_handle_screenshot_upload ids_ok_purchase_coins_handler api_defs Let_def
       split: option.splits)

lemma ids_ok_run: "ids_ok (run evs)"
proof (induction evs rule: rev_induct)
  case Nil
  show ?case by (simp add: run_def ids_ok_def init_database_def)
next
  case (snoc ev evs)
  then show ?case by (simp add: run_def ids_ok_apply_event)
qed

lemma ids_ok_completions:
  assumes "ids_ok s" and "completions s uid rid \<noteq> []"
  shows "sqlite_int uid \<and> sqlite_int rid"
proof -
  from assms(2) obtain c where "c \<in> set (user_interactions s)"
    and "user_id c = uid" and "interaction_id c = rid"
    by (auto simp: completions_def filter_empty_conv)
  with assms(1) show ?thesis by (auto simp: ids_ok_def list_all_iff)
qed

lemma complete_interaction_again:
  assumes "completions s uid rid \<noteq> []" and "sqlite_int uid" and "sqlite_int rid"
  shows "complete_interaction s uid rid earned ptype shot = Inr (False, s)"
proof -
  from assms(1) have "completion_of s uid rid \<noteq> None" by (simp add: completion_of_None)
  with assms(2,3) show ?thesis by (auto simp: complete_interaction_def)
qed

text \<open>
  Claim C1. In every reachable store an account has at most one completion row for a request,
  and \<^verbatim>\<open>complete_interaction\<close> on a pair that already has one returns \<^verbatim>\<open>False\<close> (already
  completed) and leaves the whole store as it was: no balance, completion row or counter
  changes. The same holds in any store for ids within the 64-bit range, and outside it the
  call raises and the store is as it was.
\<close>

theorem exactly_once:
  "length (completions (run evs) uid rid) \<le> 1 \<and>
   (completions (run evs) uid rid \<noteq> [] \<longrightarrow>
      complete_interaction (run evs) uid rid earned ptype shot = Inr (False, run evs)) \<and>
   (completions s uid rid \<noteq> [] \<and> sqlite_int uid \<and> sqlite_int rid \<longrightarrow>
      complete_interaction s uid rid earned ptype shot = Inr (False, s)) \<and>
   (completions s uid rid \<noteq> [] \<longrightarrow>
      committed s (complete_interaction s uid rid earned ptype shot) = s)"
proof (intro conjI impI)
  show "length (completions (run evs) uid rid) \<le> 1"
    using once_run [of evs] by (simp add: once_def)
next
  assume c: "completions (run evs) uid rid \<noteq> []"
  with ids_ok_run [of evs] have "sqlite_int uid \<and> sqlite_int rid"
    by (rule ids_ok_completions)
  with c show "complete_interaction (run evs) uid rid earned ptype shot = Inr (False, run evs)"
    by (simp add: complete_interaction_again)
next
  assume "completions s uid rid \<noteq> [] \<and> sqlite_int uid \<and> sqlite_int rid"
  then show "complete_interaction s uid rid earned ptype shot = Inr (False, s)"
    by (simp add: complete_interaction_again)
next
  assume "completions s uid rid \<noteq> []"
  then have "completion_of s uid rid \<noteq> None" by (simp add: completion_of_None)
  then show "committed s (complete_interaction s uid rid earned ptype shot) = s"
    by (auto simp: complete_interaction_def committed_def)
qed

theorem exactly_once_witness:
  "length (completions (run
       [Create_user 1, Create_user 2, Handle_quantity (ud_request ''like'') 1 (Some 2),
        Handle_confirm_action 2 1, Handle_confirm_action 2 1]) 2 1) = 1 \<and>
   completions (run
       [Create_user 1, Create_user 2, Handle_quantity (ud_request ''like'') 1 (Some 2),
        Handle_confirm_action 2 1]) 2 1 \<noteq> [] \<and>
   sqlite_int 2 \<and> sqlite_int 1 \<and>
   complete_interaction (run
       [Create_user 1, Create_user 2, Handle_quantity (ud_request ''like'') 1 (Some 2),
        Handle_confirm_action 2 1]) 2 1 0 ''primary'' None =
     Inr (False, run
       [Create_user 1, Create_user 2, Handle_quantity (ud_request ''like'') 1 (Some 2),
        Handle_confirm_action 2 1])"
  using exactly_once [of "[Create_user 1, Create_user 2, Handle_quantity (ud_request ''like'') 1 (Some 2),
        Handle_confirm_action 2 1, Handle_confirm_action 2 1]" 2 1 0 "''primary''" None
      "run [Create_user 1, Create_user 2, Handle_quantity (ud_request ''like'') 1 (Some 2),
        Handle_confirm_action 2 1]"]
  by (simp add: run_defs completions_def earn1)

subsection \<open>The status of a request\<close>

lemma all_active_users [simp]: "all_active (s\<lparr>users := x\<rparr>) = all_active s"
  by (simp add: all_active_def)
lemma all_active_user_interactions [simp]:
  "all_active (s\<lparr>user_interactions := x\<rparr>) = all_active s"
  by (simp add: all_active_def)
lemma all_active_tickets [simp]: "all_active (s\<lparr>tickets := x\<rparr>) = all_active s"
  by (simp add: all_active_def)
lemma all_active_purchase_forms [simp]: "all_active (s\<lparr>purchase_forms := x\<rparr>) = all_active s"
  by (simp add: all_active_def)
lemma all_active_screenshots [simp]: "all_active (s\<lparr>screenshots := x\<rparr>) = all_active s"
  by (simp add: all_active_def)
lemma status_bump_completed [simp]: "status (bump_completed rid i) = status i"
  by (simp add: bump_completed_def)
lemma list_all_status_bump:
  "list_all (\<lambda>i. status i = v) (map (bump_completed rid) rows) = list_all (\<lambda>i. status i = v) rows"
  by (induction rows) simp_all

lemma all_active_complete_interaction:
  "complete_interaction s uid rid e p sh = Inr r \<Longrightarrow> all_active s \<Longrightarrow> all_active (snd r)"
  by (auto simp: complete_interaction_def all_active_def list_all_status_bump
        split: if_splits option.splits)

lemma all_active_complete_interaction_pair:
  "complete_interaction s uid rid e p sh = Inr (a, s') \<Longrightarrow> all_active s \<Longrightarrow> all_active s'"
  using all_active_complete_interaction [of s uid rid e p sh "(a, s')"] by simp

lemma all_active_handle_quantity:
  "all_active s \<Longrightarrow> all_active (fst (snd (handle_quantity s ud uid parsed)))"
  by (simp add: handle_quantity_def api_defs all_active_def Let_def
        split: option.splits sum.splits)

lemma all_active_handle_confirm_action:
  "all_active s \<Longrightarrow> all_active (snd (handle_confirm_action s uid rid))"
  by (auto simp: handle_confirm_action_def Let_def split: option.splits sum.splits
        intro: all_active_complete_interaction_pair)

lemma all_active_handle_screenshot_upload:
  "all_active s \<Longrightarrow> all_active (fst (snd (handle_screenshot_upload s ud uid ph now)))"
proof -
  assume o: "all_active s"
  have "all_active s'"
    if "complete_interaction (s\<lparr>screenshots := x\<rparr>) uid rid e p sh = Inr (a, s')"
    for x rid e p sh a s'
    using o by (intro all_active_complete_interaction_pair [OF that]) simp
  then show ?thesis
    using o
    by (simp add: handle_screenshot_upload_def Let_def split: option.splits sum.splits)
qed

lemma all_active_purchase_coins_handler:
  "all_active s \<Longrightarrow> all_active (fst (snd (purchase_coins_handler s ud uid parsed)))"
  by (simp add: purchase_coins_handler_def api_defs Let_def split: option.splits sum.splits)

lemma all_active_apply_event: "all_active s \<Longrightarrow> all_active (apply_event s ev)"
proof (cases ev)
  case (Complete_interaction uid rid e p sh)
  assume "all_active s"
  then show ?thesis
    unfolding Complete_interaction
    by (auto simp: committed_def split: sum.splits intro: all_active_complete_interaction_pair)
next
  case (Create_interaction_request uid l a q c)
  assume "all_active s"
  then show ?thesis
    unfolding Create_interaction_request
    by (simp add: api_defs all_active_def Let_def)
qed (simp_all add: all_active_handle_quantity all_active_handle_confirm_action
       all_active_handle_screenshot_upload all_active_purchase_coins_handler api_defs Let_def
       split: option.splits)

lemma all_active_run: "all_active (run evs)"
proof (induction evs rule: rev_induct)
  case Nil
  show ?case by (simp add: run_def all_active_def init_database_def)
next
  case (snoc ev evs)
  then show ?case by (simp add: run_def all_active_apply_event)
qed

text \<open>
  Claim C2, as the code has it. No statement of the program writes the status column, so in
  every reachable store every request is \<^verbatim>\<open>active\<close>: a request is not closed when its
  completed count reaches its quantity, and none with a smaller count is ever closed.
\<close>

theorem status_never_closed:
  "list_all (\<lambda>i. status i = ''active'') (interactions (run evs))"
  using all_active_run [of evs] by (simp add: all_active_def)

text \<open>
  The claim fails in the run where account 1 asks for one like and account 2 gives it: the
  completed count equals the quantity and the status is still \<^verbatim>\<open>active\<close>.
\<close>

theorem closure_counterexample:
  "map quantity (interactions (run
     [Create_user 1, Create_user 2, Handle_quantity (ud_request ''like'') 1 (Some 1),
      Handle_confirm_action 2 1])) = [1] \<and>
   map completed_count (interactions (run
     [Create_user 1, Create_user 2, Handle_quantity (ud_request ''like'') 1 (Some 1),
      Handle_confirm_action 2 1])) = [SqlInt 1] \<and>
   map status (interactions (run
     [Create_user 1, Create_user 2, Handle_quantity (ud_request ''like'') 1 (Some 1),
      Handle_confirm_action 2 1])) = [''active'']"
  by (simp add: run_defs earn1)

subsection \<open>Creating a request\<close>





subsection \<open>The completed count and the quantity\<close>

text \<open>
  Claim C4 at a failing run. Account 1 asks for one like; accounts 2 and 3 both confirm it.
  \<^verbatim>\<open>complete_interaction\<close> does not compare the count with the quantity, which only the
  listing of \<^verbatim>\<open>get_available_interactions\<close> does, so the count becomes 2 for a quantity of 1.
\<close>

theorem overshoot:
  "map quantity (interactions (run
     [Create_user 1, Create_user 2, Create_user 3,
      Handle_quantity (ud_request ''like'') 1 (Some 1),
      Handle_confirm_action 2 1, Handle_confirm_action 3 1])) = [1] \<and>
   map completed_count (interactions (run
     [Create_user 1, Create_user 2, Create_user 3,
      Handle_quantity (ud_request ''like'') 1 (Some 1),
      Handle_confirm_action 2 1, Handle_confirm_action 3 1])) = [SqlInt 2]"
  by (simp add: run_defs earn1)

subsection \<open>Earnings\<close>









subsection \<open>The proof of a completion\<close>

text \<open>
  Claim C6 at a failing input. Account 1 asks for two follows at a price of 5, for which
  \<^verbatim>\<open>handle_do_action\<close> offers only the screenshot upload. \<^verbatim>\<open>handle_confirm_action\<close> on that
  request does not look at the price: it records the completion with no screenshot and
  credits the earnings.
\<close>

theorem proof_not_enforced:
  "handle_do_action
     (run [Create_user 1, Create_user 2, Handle_quantity (ud_request ''follow'') 1 (Some 2)]) 1 =
     Inr (Offer_screenshot 1 1) \<and>
   fst (handle_confirm_action
     (run [Create_user 1, Create_user 2, Handle_quantity (ud_request ''follow'') 1 (Some 2)]) 2 1) =
     Inr (Interaction_completed 1) \<and>
   user_interactions (snd (handle_confirm_action
     (run [Create_user 1, Create_user 2, Handle_quantity (ud_request ''follow'') 1 (Some 2)]) 2 1)) =
     [\<lparr>ui_id = 1, user_id = 2, interaction_id = 1, ui_screenshot_id = None, earnings = 1,
       profile_type = ''primary''\<rparr>] \<and>
   map_option coin_balance (users (snd (handle_confirm_action
     (run [Create_user 1, Create_user 2, Handle_quantity (ud_request ''follow'') 1 (Some 2)]) 2 1))
     2) = Some (SqlInt 11)"
  by (simp add: run_defs handle_do_action_def earn5)

subsection \<open>A request that does not exist\<close>

text \<open>
  Claim C7, as the code has it. For a request id with no row that fits a 64-bit int,
  \<^verbatim>\<open>handle_confirm_action\<close> answers that the interaction is not found and leaves the store
  unchanged; an id outside that range cannot be bound to the lookup, which raises
  \<^verbatim>\<open>OverflowError\<close>, the store again unchanged. \<^verbatim>\<open>handle_screenshot_upload\<close>, which stores
  the screenshot row before it looks the request up, gives the same answer, or fails on a
  duplicate screenshot key or on an id that cannot be bound, and leaves accounts, requests and
  completions unchanged. The lookup is the handlers': \<^verbatim>\<open>complete_interaction\<close> itself is only
  called once the row has been found.
\<close>

theorem unknown_request:
  assumes "interaction_row s rid = None"
  shows "(sqlite_int rid \<longrightarrow> handle_confirm_action s uid rid = (Inr Interaction_not_found, s)) \<and>
    (\<not> sqlite_int rid \<longrightarrow> handle_confirm_action s uid rid = (Inl OverflowError, s)) \<and>
    (ud_pending_interaction_id ud = Some rid \<and> rid \<noteq> 0 \<longrightarrow>
       (sqlite_int uid \<and> sqlite_int rid \<and>
        find (\<lambda>x. s_id x = str_int uid @ ''_'' @ str_int rid @ ''_'' @ now) (screenshots s) = None \<longrightarrow>
          fst (handle_screenshot_upload s ud uid True now) = Inr (END, Interaction_not_found)) \<and>
       (sqlite_int uid \<and> sqlite_int rid \<and>
        find (\<lambda>x. s_id x = str_int uid @ ''_'' @ str_int rid @ ''_'' @ now) (screenshots s) \<noteq> None \<longrightarrow>
          handle_screenshot_upload s ud uid True now = (Inl IntegrityError, s, ud)) \<and>
       (\<not> (sqlite_int uid \<and> sqlite_int rid) \<longrightarrow>
          handle_screenshot_upload s ud uid True now = (Inl OverflowError, s, ud)) \<and>
       users (fst (snd (handle_screenshot_upload s ud uid True now))) = users s \<and>
       interactions (fst (snd (handle_screenshot_upload s ud uid True now))) = interactions s \<and>
       user_interactions (fst (snd (handle_screenshot_upload s ud uid True now))) =
         user_interactions s)"
  using assms
  by (simp add: handle_confirm_action_def handle_screenshot_upload_def interaction_row_def Let_def)

theorem unknown_request_witness:
  "interaction_row init_database 7 = None \<and> sqlite_int 7 \<and> sqlite_int 1 \<and>
   handle_confirm_action init_database 1 7 = (Inr Interaction_not_found, init_database) \<and>
   ud_pending_interaction_id (ud_pending 7) = Some 7 \<and> (7::int) \<noteq> 0 \<and>
   handle_screenshot_upload init_database (ud_pending 7) 1 True ''20240101_120000'' =
     (Inr (END, Interaction_not_found),
      init_database\<lparr>screenshots :=
        [\<lparr>s_id = ''1_7_20240101_120000'', s_user_id = 1,
          file_path = ''screenshots/1_7_20240101_120000.jpg'', s_interaction_id = 7\<rparr>]\<rparr>,
      clear)"
  using unknown_request [of init_database 7 1 "ud_pending 7" "''20240101_120000''"]
  by (simp add: init_database_def interaction_row_def ud_pending_def clear_def sqlite_int_def
        handle_screenshot_upload_def str_int_def str_digits.simps Let_def)

text \<open>
  The claim fails for the request id \<open>2 ^ 63\<close>, which no row has: the handler does not answer
  that the interaction is not found, its lookup raises \<^verbatim>\<open>OverflowError\<close>.
\<close>

theorem unknown_request_counterexample:
  "interaction_row init_database 9223372036854775808 = None \<and>
   handle_confirm_action init_database 1 9223372036854775808 =
     (Inl OverflowError, init_database) \<and>
   fst (handle_confirm_action init_database 1 9223372036854775808) \<noteq> Inr Interaction_not_found"
  by (simp add: init_database_def interaction_row_def handle_confirm_action_def sqlite_int_def)

subsection \<open>Open requests\<close>

text \<open>
  Claim C8, as the code has it. For a caller id and a limit that fit a 64-bit int, every row
  of \<^verbatim>\<open>get_available_interactions\<close> is active, has a completed count below its quantity and
  is not owned by the caller; for a limit of 0 or more the result has at most that many rows,
  and for a negative limit, which SQLite reads as no limit, it has all the rows that qualify.
  A caller id or a limit outside the 64-bit range raises \<^verbatim>\<open>OverflowError\<close>.
\<close>

theorem open_requests:
  "(sqlite_int uid \<and> sqlite_int limit \<longrightarrow>
      (\<exists>rows. get_available_interactions s uid limit rnd = Inr rows \<and>
         list_all (\<lambda>x. status (fst x) = ''active'' \<and>
                     num_less (completed_count (fst x)) (quantity (fst x)) \<and>
                     requester_id (fst x) \<noteq> uid) rows \<and>
         (0 \<le> limit \<longrightarrow> int (length rows) \<le> limit) \<and>
         (limit < 0 \<longrightarrow> length rows = length (filter (available s uid) (interactions s))))) \<and>
   (\<not> (sqlite_int uid \<and> sqlite_int limit) \<longrightarrow>
      get_available_interactions s uid limit rnd = Inl OverflowError)"
proof (intro conjI impI)
  assume r: "sqlite_int uid \<and> sqlite_int limit"
  define R where "R = sort_key (\<lambda>i. rnd (iid i)) (filter (available s uid) (interactions s))"
  define xs where "xs = (if limit < 0 then R else take (nat limit) R)"
  define f where "f = (\<lambda>i :: interaction. (i, case users s (requester_id i) of
                               None \<Rightarrow> None | Some u \<Rightarrow> instagram_username u))"
  have res: "get_available_interactions s uid limit rnd = Inr (map f xs)"
    using r by (simp add: get_available_interactions_def Let_def R_def xs_def f_def)
  have sub: "set xs \<subseteq> set R" by (simp add: xs_def set_take_subset)
  have av: "available s uid i" if "i \<in> set xs" for i
  proof -
    from that sub have "i \<in> set R" by (rule subsetD [rotated])
    then show ?thesis by (simp add: R_def)
  qed
  have "list_all (\<lambda>i. status i = ''active'' \<and> num_less (completed_count i) (quantity i) \<and>
                     requester_id i \<noteq> uid) xs"
    unfolding list_all_iff
  proof
    fix i
    assume "i \<in> set xs"
    then have "available s uid i" by (rule av)
    then show "status i = ''active'' \<and> num_less (completed_count i) (quantity i) \<and>
                     requester_id i \<noteq> uid"
      by (simp add: available_def)
  qed
  then have p1: "list_all (\<lambda>x. status (fst x) = ''active'' \<and>
                     num_less (completed_count (fst x)) (quantity (fst x)) \<and>
                     requester_id (fst x) \<noteq> uid) (map f xs)"
    by (simp add: list.pred_map comp_def f_def)
  have p2: "0 \<le> limit \<longrightarrow> int (length (map f xs)) \<le> limit"
    by (auto simp: xs_def)
  have p3: "limit < 0 \<longrightarrow> length (map f xs) = length (filter (available s uid) (interactions s))"
    by (simp add: xs_def R_def)
  show "\<exists>rows. get_available_interactions s uid limit rnd = Inr rows \<and>
         list_all (\<lambda>x. status (fst x) = ''active'' \<and>
                     num_less (completed_count (fst x)) (quantity (fst x)) \<and>
                     requester_id (fst x) \<noteq> uid) rows \<and>
         (0 \<le> limit \<longrightarrow> int (length rows) \<le> limit) \<and>
         (limit < 0 \<longrightarrow> length rows = length (filter (available s uid) (interactions s)))"
  proof (intro exI conjI)
    show "get_available_interactions s uid limit rnd = Inr (map f xs)" by (rule res)
    show "list_all (\<lambda>x. status (fst x) = ''active'' \<and>
                     num_less (completed_count (fst x)) (quantity (fst x)) \<and>
                     requester_id (fst x) \<noteq> uid) (map f xs)" by (rule p1)
    show "0 \<le> limit \<longrightarrow> int (length (map f xs)) \<le> limit" by (rule p2)
    show "limit < 0 \<longrightarrow> length (map f xs) = length (filter (available s uid) (interactions s))"
      by (rule p3)
  qed
next
  assume "\<not> (sqlite_int uid \<and> sqlite_int limit)"
  then show "get_available_interactions s uid limit rnd = Inl OverflowError"
    by (auto simp: get_available_interactions_def)
qed

theorem open_requests_witness:
  "sqlite_int 2 \<and> sqlite_int 5 \<and> (0::int) \<le> 5 \<and>
   get_available_interactions
       (run [Create_user 1, Create_interaction_request 1 ''https://instagram.com/p/ABC123/'' ''like'' 3 1])
       2 5 by_id =
     Inr [(\<lparr>iid = 1, requester_id = 1, post_link = ''https://instagram.com/p/ABC123/'',
             action_type = ''like'', quantity = 3, cost_per_action = 1, total_cost = 3,
             completed_count = SqlInt 0, status = ''active'', screenshot_id = None\<rparr>, None)] \<and>
   num_less (SqlInt 0) 3 \<and> (1::int) \<noteq> 2 \<and> int (length [1::int]) \<le> 5 \<and>
   \<not> sqlite_int 9223372036854775808 \<and>
   get_available_interactions
       (run [Create_user 1, Create_interaction_request 1 ''https://instagram.com/p/ABC123/'' ''like'' 3 1])
       2 9223372036854775808 by_id = Inl OverflowError"
  using open_requests [of 2 5
      "run [Create_user 1, Create_interaction_request 1 ''https://instagram.com/p/ABC123/'' ''like'' 3 1]"
      by_id]
    open_requests [of 2 9223372036854775808
      "run [Create_user 1, Create_interaction_request 1 ''https://instagram.com/p/ABC123/'' ''like'' 3 1]"
      by_id]
  by (simp add: run_def store_defs get_available_interactions_def available_def Let_def
        by_id_def)

text \<open>The claim fails for the limit -1: one row is returned.\<close>

theorem open_requests_counterexample:
  "get_available_interactions
       (run [Create_user 1, Create_interaction_request 1 ''https://instagram.com/p/ABC123/'' ''like'' 3 1])
       2 (- 1) by_id =
     Inr [(\<lparr>iid = 1, requester_id = 1, post_link = ''https://instagram.com/p/ABC123/'',
             action_type = ''like'', quantity = 3, cost_per_action = 1, total_cost = 3,
             completed_count = SqlInt 0, status = ''active'', screenshot_id = None\<rparr>, None)] \<and>
   \<not> int (length
     [(\<lparr>iid = 1, requester_id = 1, post_link = ''https://instagram.com/p/ABC123/'',
             action_type = ''like'', quantity = 3, cost_per_action = 1, total_cost = 3,
             completed_count = SqlInt 0, status = ''active'', screenshot_id = None\<rparr>,
       None :: string option)]) \<le> - 1"
  by (simp add: run_def store_defs get_available_interactions_def available_def Let_def
        by_id_def)

subsection \<open>The price of a purchase\<close>

lemma int_times_float_cases:
  "int_times_float n c = Inl OverflowError \<or> (\<exists>f. int_times_float n c = Inr f)"
  by (simp add: int_times_float_def float_of_int_def Let_def)

text \<open>
  Claim C9, as the code has it. An input that is no int, or an int that is not positive,
  leaves the flow in the coin-amount state with store and dictionary unchanged. For a positive
  amount below \<open>2 ^ 63\<close> the form is recorded with the price of the bracket table (5, 10, 18,
  30 for amounts up to 100, 250, 500, 1000) and above 1000 with the float product of the
  amount and 0.03. An amount of \<open>2 ^ 63\<close> or more raises \<^verbatim>\<open>OverflowError\<close>, from the product
  or from the insertion, and records nothing.
\<close>

theorem purchase_price:
  "purchase_coins_handler s ud uid None = (Inr (WAITING_PURCHASE_COINS, Invalid_number), s, ud) \<and>
   (n \<le> 0 \<longrightarrow>
      purchase_coins_handler s ud uid (Some n) = (Inr (WAITING_PURCHASE_COINS, Not_positive), s, ud)) \<and>
   (0 < n \<and> n < 2 ^ 63 \<and> sqlite_int uid \<and>
    ud_purchase_name ud = Some nm \<and> ud_purchase_phone ud = Some ph \<longrightarrow>
      (let price = (if n \<le> 100 then lit_5_0 else if n \<le> 250 then lit_10_0
                    else if n \<le> 500 then lit_18_0 else if n \<le> 1000 then lit_30_0
                    else float_mul (round53 n 0) lit_0_03)
       in int_times_float n lit_0_03 = Inr (float_mul (round53 n 0) lit_0_03) \<and>
          purchase_coins_handler s ud uid (Some n) =
            (Inr (END, Purchase_form_sent (lastrowid (purchase_forms s)) price),
             s\<lparr>purchase_forms := purchase_forms s @
                  [\<lparr>pf_id = lastrowid (purchase_forms s), pf_user_id = uid, name = nm, phone = ph,
                    coins_requested = n, amount_euro = price, pf_status = ''pending''\<rparr>]\<rparr>,
             clear))) \<and>
   (2 ^ 63 \<le> n \<and> ud_purchase_name ud = Some nm \<and> ud_purchase_phone ud = Some ph \<longrightarrow>
      purchase_coins_handler s ud uid (Some n) = (Inl OverflowError, s, ud))"
proof (intro conjI impI)
  show "purchase_coins_handler s ud uid None =
      (Inr (WAITING_PURCHASE_COINS, Invalid_number), s, ud)"
    by (simp add: purchase_coins_handler_def)
next
  assume "n \<le> 0"
  then show "purchase_coins_handler s ud uid (Some n) =
      (Inr (WAITING_PURCHASE_COINS, Not_positive), s, ud)"
    by (simp add: purchase_coins_handler_def)
next
  assume a: "0 < n \<and> n < 2 ^ 63 \<and> sqlite_int uid \<and>
    ud_purchase_name ud = Some nm \<and> ud_purchase_phone ud = Some ph"
  then have "float_of_int n = Inr (round53 n 0)"
    by (intro float_of_int_ok) simp
  moreover from a have "sqlite_int n" by (simp add: sqlite_int_def)
  ultimately show "let price = (if n \<le> 100 then lit_5_0 else if n \<le> 250 then lit_10_0
                    else if n \<le> 500 then lit_18_0 else if n \<le> 1000 then lit_30_0
                    else float_mul (round53 n 0) lit_0_03)
       in int_times_float n lit_0_03 = Inr (float_mul (round53 n 0) lit_0_03) \<and>
          purchase_coins_handler s ud uid (Some n) =
            (Inr (END, Purchase_form_sent (lastrowid (purchase_forms s)) price),
             s\<lparr>purchase_forms := purchase_forms s @
                  [\<lparr>pf_id = lastrowid (purchase_forms s), pf_user_id = uid, name = nm, phone = ph,
                    coins_requested = n, amount_euro = price, pf_status = ''pending''\<rparr>]\<rparr>,
             clear)"
    using a
    by (simp add: purchase_coins_handler_def coin_price_def int_times_float_def
          create_purchase_form_def Let_def)
next
  assume a: "2 ^ 63 \<le> n \<and> ud_purchase_name ud = Some nm \<and> ud_purchase_phone ud = Some ph"
  then have big: "\<not> sqlite_int n" and pos: "\<not> n \<le> 1000"
    by (simp_all add: sqlite_int_def)
  from pos have cp: "coin_price n = int_times_float n lit_0_03"
    by (simp add: coin_price_def)
  from pos have n0: "\<not> n \<le> 0" by simp
  from int_times_float_cases [of n lit_0_03]
  show "purchase_coins_handler s ud uid (Some n) = (Inl OverflowError, s, ud)"
  proof
    assume "int_times_float n lit_0_03 = Inl OverflowError"
    with cp n0 show ?thesis by (simp add: purchase_coins_handler_def)
  next
    assume "\<exists>f. int_times_float n lit_0_03 = Inr f"
    then obtain f where "int_times_float n lit_0_03 = Inr f" ..
    with cp n0 a big show ?thesis
      by (simp add: purchase_coins_handler_def create_purchase_form_def)
  qed
qed

theorem purchase_price_witness:
  "(0::int) < 2000 \<and> (2000::int) < 2 ^ 63 \<and> sqlite_int 1 \<and>
   ud_purchase_name ud_purchase = Some ''Mario Rossi'' \<and>
   ud_purchase_phone ud_purchase = Some ''3331234567'' \<and>
   purchase_coins_handler init_database ud_purchase 1 (Some 2000) =
     (Inr (END, Purchase_form_sent 1 (PyFloat 8444249301319680 (- 47))),
      init_database\<lparr>purchase_forms :=
        [\<lparr>pf_id = 1, pf_user_id = 1, name = ''Mario Rossi'', phone = ''3331234567'',
          coins_requested = 2000, amount_euro = PyFloat 8444249301319680 (- 47),
          pf_status = ''pending''\<rparr>]\<rparr>,
      clear) \<and>
   float_val (PyFloat 8444249301319680 (- 47)) = 60 \<and>
   (- 3::int) \<le> 0 \<and>
   purchase_coins_handler init_database ud_purchase 1 (Some (- 3)) =
     (Inr (WAITING_PURCHASE_COINS, Not_positive), init_database, ud_purchase) \<and>
   (2::int) ^ 63 \<le> 9223372036854775808 \<and>
   purchase_coins_handler init_database ud_purchase 1 (Some 9223372036854775808) =
     (Inl OverflowError, init_database, ud_purchase)"
  using purchase_price [of init_database ud_purchase 1 2000 "''Mario Rossi''" "''3331234567''"]
    purchase_price [of init_database ud_purchase 1 "- 3"]
    purchase_price [of init_database ud_purchase 1 9223372036854775808 "''Mario Rossi''"
      "''3331234567''"]
  by (simp add: ud_purchase_def clear_def float_defs init_database_def lastrowid_def float_val_def
        sqlite_int_def bit_length.simps Let_def)

text \<open>
  The claim fails for the amount \<open>2 ^ 1024\<close>, which has no float: the product raises
  \<^verbatim>\<open>OverflowError\<close> and no form is recorded.
\<close>

theorem purchase_price_counterexample:
  "purchase_coins_handler init_database ud_purchase 1 (Some (2 ^ 1024)) =
     (Inl OverflowError, init_database, ud_purchase)"
  using float_of_int_2_1024
  by (simp add: purchase_coins_handler_def coin_price_def int_times_float_def)

subsection \<open>A completion by an unknown account\<close>

lemma iid_bump_completed [simp]: "iid (bump_completed rid i) = iid i"
  by (simp add: bump_completed_def)

lemma find_bump_completed:
  "find (\<lambda>i. iid i = r) (map (bump_completed rid) rows) =
   map_option (bump_completed rid) (find (\<lambda>i. iid i = r) rows)"
  by (induction rows) simp_all

text \<open>
  Claim C10, as the code has it. \<^verbatim>\<open>complete_interaction\<close> does not need the acting account:
  for an id with no users row, on a request that exists and that the id has not completed, it
  returns \<^verbatim>\<open>True\<close>, inserts the completion row and increments the request's completed count,
  and the users table is unchanged, so the earnings are credited to nobody. This is so when
  the two ids and the earnings fit a 64-bit int; otherwise the call raises \<^verbatim>\<open>OverflowError\<close>
  and writes nothing.
\<close>

theorem completion_without_account:
  assumes "users s uid = None" and "interaction_row s rid = Some i"
    and "completions s uid rid = []"
  shows "(sqlite_int uid \<and> sqlite_int rid \<and> sqlite_int earned \<longrightarrow>
      complete_interaction s uid rid earned ptype shot =
        Inr (True,
             s\<lparr>user_interactions := user_interactions s @
                  [\<lparr>ui_id = lastrowid (user_interactions s), user_id = uid, interaction_id = rid,
                    ui_screenshot_id = shot, earnings = earned, profile_type = ptype\<rparr>],
               interactions := map (bump_completed rid) (interactions s)\<rparr>) \<and>
      interaction_row (committed s (complete_interaction s uid rid earned ptype shot)) rid =
        Some (i\<lparr>completed_count := sql_add (completed_count i) 1\<rparr>) \<and>
      (completed_count i = SqlInt c \<and> sqlite_int c \<and> c < 2 ^ 63 - 1 \<longrightarrow>
         sql_add (completed_count i) 1 = SqlInt (c + 1)) \<and>
      users (committed s (complete_interaction s uid rid earned ptype shot)) = users s) \<and>
    (\<not> (sqlite_int uid \<and> sqlite_int rid \<and> sqlite_int earned) \<longrightarrow>
      complete_interaction s uid rid earned ptype shot = Inl OverflowError)"
proof -
  from assms(3) have none: "completion_of s uid rid = None"
    by (simp add: completion_of_None)
  from assms(2) have "iid i = rid"
    by (auto simp: interaction_row_def dest: find_Some_iff[THEN iffD1])
  with assms(1,2) none show ?thesis
    by (auto simp: complete_interaction_def credit_def interaction_row_def find_bump_completed
          bump_completed_def committed_def sql_add_def sqlite_int_def)
qed

theorem completion_without_account_witness:
  "users (run [Create_user 1,
       Create_interaction_request 1 ''https://instagram.com/p/ABC123/'' ''like'' 3 1]) 99 = None \<and>
   interaction_row (run [Create_user 1,
       Create_interaction_request 1 ''https://instagram.com/p/ABC123/'' ''like'' 3 1]) 1 =
     Some \<lparr>iid = 1, requester_id = 1, post_link = ''https://instagram.com/p/ABC123/'',
            action_type = ''like'', quantity = 3, cost_per_action = 1, total_cost = 3,
            completed_count = SqlInt 0, status = ''active'', screenshot_id = None\<rparr> \<and>
   completions (run [Create_user 1,
       Create_interaction_request 1 ''https://instagram.com/p/ABC123/'' ''like'' 3 1]) 99 1 = [] \<and>
   sqlite_int 99 \<and> sqlite_int 1 \<and> sqlite_int 0 \<and>
   complete_interaction (run [Create_user 1,
       Create_interaction_request 1 ''https://instagram.com/p/ABC123/'' ''like'' 3 1])
       99 1 0 ''primary'' None =
     Inr (True,
      (run [Create_user 1,
         Create_interaction_request 1 ''https://instagram.com/p/ABC123/'' ''like'' 3 1])
       \<lparr>user_interactions :=
          [\<lparr>ui_id = 1, user_id = 99, interaction_id = 1, ui_screenshot_id = None, earnings = 0,
            profile_type = ''primary''\<rparr>],
        interactions :=
          [\<lparr>iid = 1, requester_id = 1, post_link = ''https://instagram.com/p/ABC123/'',
            action_type = ''like'', quantity = 3, cost_per_action = 1, total_cost = 3,
            completed_count = SqlInt 1, status = ''active'', screenshot_id = None\<rparr>]\<rparr>)"
  using completion_without_account [of
      "run [Create_user 1, Create_interaction_request 1 ''https://instagram.com/p/ABC123/'' ''like'' 3 1]"
      99 1
      "\<lparr>iid = 1, requester_id = 1, post_link = ''https://instagram.com/p/ABC123/'',
            action_type = ''like'', quantity = 3, cost_per_action = 1, total_cost = 3,
            completed_count = SqlInt 0, status = ''active'', screenshot_id = None\<rparr>"
      0 "''primary''" None 0]
  by (simp add: run_def store_defs completions_def)

text \<open>
  The claim fails for the account id \<open>2 ^ 63\<close>, which has no users row: on a request that
  exists and that the id has not completed, the call raises \<^verbatim>\<open>OverflowError\<close> and reports no
  success.
\<close>

theorem completion_without_account_counterexample:
  "users (run [Create_user 1,
       Create_interaction_request 1 ''https://instagram.com/p/ABC123/'' ''like'' 3 1])
     9223372036854775808 = None \<and>
   map iid (interactions (run [Create_user 1,
       Create_interaction_request 1 ''https://instagram.com/p/ABC123/'' ''like'' 3 1])) = [1] \<and>
   completions (run [Create_user 1,
       Create_interaction_request 1 ''https://instagram.com/p/ABC123/'' ''like'' 3 1])
     9223372036854775808 1 = [] \<and>
   complete_interaction (run [Create_user 1,
       Create_interaction_request 1 ''https://instagram.com/p/ABC123/'' ''like'' 3 1])
       9223372036854775808 1 0 ''primary'' None = Inl OverflowError"
  by (simp add: run_def store_defs completions_def)

end
